theory Spec2Isabelle
  imports Main "HOL-Library.Sublist"
begin

section \<open>Python strings\<close>

text \<open>
  A Python \<open>str\<close> is modelled as a \<open>string\<close>, one \<open>char\<close> per code point; the
  model therefore covers the code points below 256. \<open>isspace\<close> lists the code points
  of that range that \<open>str.strip()\<close> removes: TAB, LF, VT, FF, CR, the separators
  0x1C to 0x1F, the space, NEL (0x85) and the no-break space (0xA0).
\<close>

definition isspace :: "char \<Rightarrow> bool" where
  "isspace c = (c \<in> set [CHR 0x09, CHR 0x0A, CHR 0x0B, CHR 0x0C, CHR 0x0D,
                          CHR 0x1C, CHR 0x1D, CHR 0x1E, CHR 0x1F, CHR 0x20,
                          CHR 0x85, CHR 0xA0])"

text \<open>\<open>s.strip()\<close>: leading and trailing whitespace removed.\<close>

definition str_strip :: "string \<Rightarrow> string" where
  "str_strip s = rev (dropWhile isspace (rev (dropWhile isspace s)))"

text \<open>\<open>s.split(sep)\<close> for a one-character separator: never the empty list.\<close>

fun str_split :: "char \<Rightarrow> string \<Rightarrow> string list" where
  "str_split sep [] = [[]]"
| "str_split sep (c # cs) =
     (if c = sep then [] # str_split sep cs
      else (c # hd (str_split sep cs)) # tl (str_split sep cs))"

text \<open>\<open>sep.join(xs)\<close>.\<close>

fun str_join :: "string \<Rightarrow> string list \<Rightarrow> string" where
  "str_join sep [] = []"
| "str_join sep [x] = x"
| "str_join sep (x # y # ys) = x @ sep @ str_join sep (y # ys)"

text \<open>\<open>s.startswith(p)\<close>.\<close>

definition startswith :: "string \<Rightarrow> string \<Rightarrow> bool" where
  "startswith s p = prefix p s"

text \<open>
  \<open>s.replace(old, new)\<close>: every occurrence of \<open>old\<close>, found from the left and
  without overlap, is replaced; an empty \<open>old\<close> matches before every character and at
  the end.
\<close>

function str_replace :: "string \<Rightarrow> string \<Rightarrow> string \<Rightarrow> string" where
  "str_replace old new [] = (if old = [] then new else [])"
| "str_replace old new (c # cs) =
     (if old = [] then new @ concat (map (\<lambda>x. x # new) (c # cs))
      else if prefix old (c # cs)
        then new @ str_replace old new (drop (length old) (c # cs))
      else c # str_replace old new cs)"
  by pat_completeness auto
termination
  by (relation "measure (\<lambda>(old, new, s). length s)") (auto simp: neq_Nil_conv)

text \<open>Truthiness of an \<open>Optional[str]\<close>: \<open>None\<close> and the empty string are falsy.\<close>

fun truthy :: "string option \<Rightarrow> bool" where
  "truthy None = False"
| "truthy (Some s) = (s \<noteq> [])"

section \<open>dependencies.py\<close>

datatype http_exception = HTTPException (status_code: nat) (detail: string)

record http_request =
  headers :: "string \<rightharpoonup> string"

record request_context =
  request :: http_request

record mcp_context =
  request_context :: "request_context option"

text \<open>
  \<open>get_access_token\<close>: \<open>Inl\<close> is the raised \<open>HTTPException\<close>. The argument is
  \<open>None\<close> when the context itself is falsy.
\<close>

definition get_access_token :: "mcp_context option \<Rightarrow> http_exception + string" where
  "get_access_token ctx =
     (case ctx of
        None \<Rightarrow> Inl (HTTPException 401 ''No request context available'')
      | Some c \<Rightarrow>
         (case request_context c of
            None \<Rightarrow> Inl (HTTPException 401 ''No request context available'')
          | Some rc \<Rightarrow>
             (let auth_header = headers (request rc) ''Authorization'' in
              if \<not> truthy auth_header \<or> \<not> startswith (the auth_header) ''Bearer ''
              then Inl (HTTPException 401 ''No valid access token provided'')
              else Inr (str_replace ''Bearer '' '''' (the auth_header)))))"

text \<open>\<open>parse_comma_separated_list\<close>.\<close>

definition parse_comma_separated_list :: "string option \<Rightarrow> string list option" where
  "parse_comma_separated_list v =
     (case v of
        None \<Rightarrow> None
      | Some s \<Rightarrow>
         if str_strip s = [] then None
         else Some (map str_strip (filter (\<lambda>item. str_strip item \<noteq> []) (str_split CHR '','' s))))"


section \<open>JSON values and exceptions\<close>

text \<open>
  What \<open>json.dumps\<close> is given: a Python dict is a \<open>JObj\<close> with its keys in
  insertion order. \<open>JsonText i j\<close> is the text \<open>json.dumps(j, indent=i)\<close>.
\<close>

datatype json =
    JNull
  | JBool bool
  | JInt int
  | JStr string
  | JArr "json list"
  | JObj "(string \<times> json) list"

datatype json_text = JsonText (indent: "nat option") (document: json)

text \<open>The value stored under a key of a JSON object, if the key is there.\<close>

fun field :: "string \<Rightarrow> json \<Rightarrow> json option" where
  "field k (JObj kvs) = map_of kvs k"
| "field k _ = None"

text \<open>A Python \<open>Exception\<close>, known by its \<open>str(e)\<close>.\<close>

datatype exception = Exception (exc_str: string)



fun truthy_list :: "'a list option \<Rightarrow> bool" where
  "truthy_list None = False"
| "truthy_list (Some xs) = (xs \<noteq> [])"

fun json_opt_str :: "string option \<Rightarrow> json" where
  "json_opt_str None = JNull"
| "json_opt_str (Some s) = JStr s"

fun json_opt_list :: "string list option \<Rightarrow> json" where
  "json_opt_list None = JNull"
| "json_opt_list (Some xs) = JArr (map JStr xs)"

section \<open>The collaborators: models and the Gmail service\<close>

text \<open>
  \<open>gmail_mcp.models\<close> and \<open>gmail_mcp.services\<close> are imported by the tools and are
  not part of the sources at hand. A request object is the record of the keyword
  arguments its constructor is given (a field that is not passed is \<open>None\<close>); whether
  the constructor accepts them is a parameter of the model (\<open>env\<close> below). An object
  that the tools only serialise is known by its \<open>model_dump()\<close>.
\<close>

datatype message_format = MINIMAL | COMPACT | FULL | METADATA | RAW

datatype model = Model (model_dump: json)

record email_message =
  m_sender :: "string option"
  m_recipient :: "string option"
  m_subject :: "string option"
  m_thread_id :: "string option"
  m_label_ids :: "string list"
  m_attachments :: "model list"

datatype thread = Thread (thread_model_dump: json) (messages: "email_message list")

record send_email_request =
  se_to :: "string list option"
  se_subject :: string
  se_body_text :: "string option"
  se_body_html :: "string option"
  se_cc :: "string list option"
  se_bcc :: "string list option"
  se_attachments :: "string list option"
  se_thread_id :: "string option"
  se_in_reply_to :: "string option"

record modify_labels_request =
  ml_add_label_ids :: "string list option"
  ml_remove_label_ids :: "string list option"

record create_label_request =
  cl_name :: string
  cl_message_list_visibility :: string
  cl_label_list_visibility :: string

record forward_email_request =
  fw_to :: "string list option"
  fw_cc :: "string list option"
  fw_bcc :: "string list option"
  fw_additional_message :: "string option"

record create_draft_request =
  cd_to :: "string list option"
  cd_subject :: string
  cd_body_text :: "string option"
  cd_body_html :: "string option"
  cd_cc :: "string list option"
  cd_bcc :: "string list option"
  cd_thread_id :: "string option"
  cd_in_reply_to :: "string option"

record thread_list_request =
  tl_max_results :: int
  tl_label_ids :: "string list option"
  tl_q :: "string option"
  tl_include_spam_trash :: bool
  tl_page_token :: "string option"
  tl_after :: "string option"
  tl_before :: "string option"

record draft_list_request =
  dl_max_results :: int
  dl_page_token :: "string option"
  dl_message_format :: message_format
  dl_q :: "string option"
  dl_after :: "string option"
  dl_before :: "string option"

record thread_list_response =
  threads :: "thread list"
  tl_next_page_token :: "string option"
  tl_result_size_estimate :: int

record draft_list_response =
  drafts :: "model list"
  dl_next_page_token :: "string option"
  dl_result_size_estimate :: int

record token_info =
  ti_access_token :: string
  ti_email :: string
  ti_scope :: string

text \<open>
  The methods of a \<open>GmailService\<close>: each returns its value (\<open>Inr\<close>) or raises
  (\<open>Inl\<close>).
\<close>

record gmail_service =
  send_message :: "send_email_request \<Rightarrow> exception + string"
  get_message :: "string \<Rightarrow> exception + email_message"
  modify_message_labels :: "string \<Rightarrow> modify_labels_request \<Rightarrow> exception + email_message"
  delete_message :: "string \<Rightarrow> exception + bool"
  create_label :: "create_label_request \<Rightarrow> exception + model"
  forward_message :: "string \<Rightarrow> forward_email_request \<Rightarrow> exception + string"
  list_threads :: "thread_list_request \<Rightarrow> exception + thread_list_response"
  get_thread :: "string \<Rightarrow> message_format \<Rightarrow> exception + thread"
  create_draft :: "create_draft_request \<Rightarrow> exception + string"
  list_drafts :: "draft_list_request \<Rightarrow> exception + draft_list_response"
  get_draft :: "string \<Rightarrow> message_format \<Rightarrow> exception + model"
  send_draft :: "string \<Rightarrow> exception + string"
  get_attachment :: "string \<Rightarrow> string \<Rightarrow> exception + model"

text \<open>
  The environment of the tools: the service class, and for each request class the
  exception its constructor raises on the given fields, if any.
\<close>

record env =
  GmailService :: "token_info \<Rightarrow> gmail_service"
  SendEmailRequest :: "send_email_request \<Rightarrow> exception option"
  ModifyLabelsRequest :: "modify_labels_request \<Rightarrow> exception option"
  CreateLabelRequest :: "create_label_request \<Rightarrow> exception option"
  ForwardEmailRequest :: "forward_email_request \<Rightarrow> exception option"
  CreateDraftRequest :: "create_draft_request \<Rightarrow> exception option"
  ThreadListRequest :: "thread_list_request \<Rightarrow> exception option"
  DraftListRequest :: "draft_list_request \<Rightarrow> exception option"

text \<open>\<open>get_gmail_service\<close>.\<close>

definition get_gmail_service :: "env \<Rightarrow> string \<Rightarrow> gmail_service" where
  "get_gmail_service E access_token =
     GmailService E \<lparr>ti_access_token = access_token, ti_email = '''', ti_scope = ''''\<rparr>"

section \<open>Effects of a tool call\<close>

text \<open>
  A tool call leaves two traces: the calls awaited on the service client, in order,
  and the lines given to \<open>logger.error\<close>.
\<close>

datatype service_call =
    Send_message send_email_request
  | Get_message string
  | Modify_message_labels string modify_labels_request
  | Delete_message string
  | Create_label create_label_request
  | Forward_message string forward_email_request
  | List_threads thread_list_request
  | Get_thread string message_format
  | Create_draft create_draft_request
  | List_drafts draft_list_request
  | Get_draft string message_format
  | Send_draft string
  | Get_attachment string string

record world =
  calls :: "service_call list"
  logged :: "string list"

text \<open>How a tool call ends: the returned text, or the \<open>HTTPException\<close> it raises.\<close>

datatype outcome = Return json_text | Raise http_exception

type_synonym 'a action = "world \<Rightarrow> (exception + 'a) \<times> world"

text \<open>\<open>x = await gmail_service.method(...)\<close>, then the rest of the try block.\<close>

definition await :: "service_call \<Rightarrow> exception + 'a \<Rightarrow> ('a \<Rightarrow> 'b action) \<Rightarrow> 'b action" where
  "await c r k w =
     (let w' = w\<lparr>calls := calls w @ [c]\<rparr> in
      case r of Inl e \<Rightarrow> (Inl e, w') | Inr v \<Rightarrow> k v w')"

text \<open>\<open>request = SomeRequest(...)\<close>, then the rest of the try block.\<close>

definition construct :: "('r \<Rightarrow> exception option) \<Rightarrow> 'r \<Rightarrow> ('r \<Rightarrow> 'b action) \<Rightarrow> 'b action" where
  "construct check r k w = (case check r of Some e \<Rightarrow> (Inl e, w) | None \<Rightarrow> k r w)"

text \<open>\<open>return json.dumps(j, indent=i)\<close>.\<close>

definition return_dumps :: "nat option \<Rightarrow> json \<Rightarrow> json_text action" where
  "return_dumps i j w = (Inr (JsonText i j), w)"

definition logger_error :: "string \<Rightarrow> world \<Rightarrow> world" where
  "logger_error line w = w\<lparr>logged := logged w @ [line]\<rparr>"

text \<open>\<open>try: body except Exception as e: handler\<close>.\<close>

definition try_except ::
  "json_text action \<Rightarrow> (exception \<Rightarrow> world \<Rightarrow> outcome \<times> world) \<Rightarrow> world \<Rightarrow> outcome \<times> world" where
  "try_except body handler w =
     (case body w of (Inr r, w') \<Rightarrow> (Return r, w') | (Inl e, w') \<Rightarrow> handler e w')"

text \<open>
  The two lines before every try block: the token is extracted (its \<open>HTTPException\<close>
  leaves the tool at once) and the service client is built from it.
\<close>

definition with_service ::
  "env \<Rightarrow> mcp_context option \<Rightarrow> (gmail_service \<Rightarrow> world \<Rightarrow> outcome \<times> world)
     \<Rightarrow> world \<Rightarrow> outcome \<times> world" where
  "with_service E ctx body w =
     (case get_access_token ctx of
        Inl h \<Rightarrow> (Raise h, w)
      | Inr access_token \<Rightarrow> body (get_gmail_service E access_token) w)"

text \<open>
  The except branch of all tools but three: the line is logged and the envelope
  \<open>{"error": str(e), "success": False}\<close> is returned.
\<close>

definition error_envelope :: "string \<Rightarrow> json" where
  "error_envelope msg = JObj [(''error'', JStr msg), (''success'', JBool False)]"

definition except_envelope :: "string \<Rightarrow> exception \<Rightarrow> world \<Rightarrow> outcome \<times> world" where
  "except_envelope tool e w =
     (Return (JsonText (Some 2) (error_envelope (exc_str e))),
      logger_error (''Error in '' @ tool @ '': '' @ exc_str e) w)"

definition no_body_error :: json where
  "no_body_error = JObj [(''error'', JStr ''Either body_text or body_html must be provided'')]"

section \<open>tools/management.py\<close>

text \<open>\<open>x or ""\<close> for an optional string.\<close>

fun or_empty :: "string option \<Rightarrow> string" where
  "or_empty None = []"
| "or_empty (Some s) = s"

text \<open>\<open>', '.join(xs) if xs else alt\<close> inside the status lines.\<close>

definition joined_or :: "string list option \<Rightarrow> string \<Rightarrow> string" where
  "joined_or xs alt = (if truthy_list xs then str_join '', '' (the xs) else alt)"

definition gmail_send_email ::
  "env \<Rightarrow> mcp_context option \<Rightarrow> string \<Rightarrow> string \<Rightarrow> string option \<Rightarrow> string option
     \<Rightarrow> string option \<Rightarrow> string option \<Rightarrow> string option \<Rightarrow> world \<Rightarrow> outcome \<times> world" where
  "gmail_send_email E ctx to subject body_text body_html cc bcc attachments =
     with_service E ctx (\<lambda>gmail_service.
       try_except
         (if \<not> truthy body_text \<and> \<not> truthy body_html
          then return_dumps None no_body_error
          else
            let to_list = parse_comma_separated_list (Some to);
                cc_list = parse_comma_separated_list cc;
                bcc_list = parse_comma_separated_list bcc;
                attachments_list = parse_comma_separated_list attachments
            in construct (SendEmailRequest E)
                 \<lparr>se_to = to_list, se_subject = subject, se_body_text = body_text,
                  se_body_html = body_html, se_cc = cc_list, se_bcc = bcc_list,
                  se_attachments = attachments_list, se_thread_id = None,
                  se_in_reply_to = None\<rparr>
                 (\<lambda>request.
                    await (Send_message request) (send_message gmail_service request)
                      (\<lambda>message_id.
                         return_dumps (Some 2)
                           (JObj [(''success'', JBool True),
                                  (''message_id'', JStr message_id),
                                  (''message'', JStr (''Email sent successfully to ''
                                      @ joined_or to_list ''recipients''))]))))
         (\<lambda>e w. (Raise (HTTPException 500 (''Failed to send email: '' @ exc_str e)),
                  logger_error (''Error sending email: '' @ exc_str e) w)))"

definition gmail_reply_to_email ::
  "env \<Rightarrow> mcp_context option \<Rightarrow> string \<Rightarrow> string option \<Rightarrow> string option \<Rightarrow> bool
     \<Rightarrow> world \<Rightarrow> outcome \<times> world" where
  "gmail_reply_to_email E ctx message_id body_text body_html reply_all =
     with_service E ctx (\<lambda>gmail_service.
       try_except
         (if \<not> truthy body_text \<and> \<not> truthy body_html
          then return_dumps None no_body_error
          else
            await (Get_message message_id) (get_message gmail_service message_id)
              (\<lambda>original_message.
                 let to_addresses0 =
                       (if truthy (m_sender original_message)
                        then [the (m_sender original_message)] else []);
                     to_addresses =
                       (if reply_all \<and> truthy (m_recipient original_message)
                        then to_addresses0 else to_addresses0);
                     subject0 = or_empty (m_subject original_message);
                     subject =
                       (if \<not> startswith subject0 ''Re:'' then ''Re: '' @ subject0
                        else subject0)
                 in construct (SendEmailRequest E)
                      \<lparr>se_to = Some to_addresses, se_subject = subject,
                       se_body_text = body_text, se_body_html = body_html,
                       se_cc = None, se_bcc = None, se_attachments = None,
                       se_thread_id = m_thread_id original_message,
                       se_in_reply_to = Some message_id\<rparr>
                      (\<lambda>request.
                         await (Send_message request) (send_message gmail_service request)
                           (\<lambda>reply_message_id.
                              return_dumps (Some 2)
                                (JObj [(''success'', JBool True),
                                       (''reply_message_id'', JStr reply_message_id),
                                       (''original_message_id'', JStr message_id),
                                       (''message'', JStr ''Reply sent successfully'')])))))
         (except_envelope ''reply_to_email''))"

text \<open>
  The four tools that modify one fixed label share their shape: the request, the
  name in the log line and the status line differ.
\<close>

definition fixed_label_tool ::
  "modify_labels_request \<Rightarrow> string \<Rightarrow> string \<Rightarrow> env \<Rightarrow> mcp_context option \<Rightarrow> string
     \<Rightarrow> world \<Rightarrow> outcome \<times> world" where
  "fixed_label_tool labels tool status E ctx message_id =
     with_service E ctx (\<lambda>gmail_service.
       try_except
         (construct (ModifyLabelsRequest E) labels
            (\<lambda>request.
               await (Modify_message_labels message_id request)
                 (modify_message_labels gmail_service message_id request)
                 (\<lambda>updated_message.
                    return_dumps (Some 2)
                      (JObj [(''success'', JBool True),
                             (''message_id'', JStr message_id),
                             (''message'', JStr status)]))))
         (except_envelope tool))"

definition gmail_mark_as_read ::
  "env \<Rightarrow> mcp_context option \<Rightarrow> string \<Rightarrow> world \<Rightarrow> outcome \<times> world" where
  "gmail_mark_as_read =
     fixed_label_tool \<lparr>ml_add_label_ids = None, ml_remove_label_ids = Some [''UNREAD'']\<rparr>
       ''mark_as_read'' ''Email marked as read''"

definition gmail_mark_as_unread ::
  "env \<Rightarrow> mcp_context option \<Rightarrow> string \<Rightarrow> world \<Rightarrow> outcome \<times> world" where
  "gmail_mark_as_unread =
     fixed_label_tool \<lparr>ml_add_label_ids = Some [''UNREAD''], ml_remove_label_ids = None\<rparr>
       ''mark_as_unread'' ''Email marked as unread''"

definition gmail_archive_email ::
  "env \<Rightarrow> mcp_context option \<Rightarrow> string \<Rightarrow> world \<Rightarrow> outcome \<times> world" where
  "gmail_archive_email =
     fixed_label_tool \<lparr>ml_add_label_ids = None, ml_remove_label_ids = Some [''INBOX'']\<rparr>
       ''archive_email'' ''Email archived successfully''"

definition gmail_unarchive_email ::
  "env \<Rightarrow> mcp_context option \<Rightarrow> string \<Rightarrow> world \<Rightarrow> outcome \<times> world" where
  "gmail_unarchive_email =
     fixed_label_tool \<lparr>ml_add_label_ids = Some [''INBOX''], ml_remove_label_ids = None\<rparr>
       ''unarchive_email'' ''Email unarchived successfully''"

definition gmail_delete_email ::
  "env \<Rightarrow> mcp_context option \<Rightarrow> string \<Rightarrow> world \<Rightarrow> outcome \<times> world" where
  "gmail_delete_email E ctx message_id =
     with_service E ctx (\<lambda>gmail_service.
       try_except
         (await (Delete_message message_id) (delete_message gmail_service message_id)
            (\<lambda>success.
               return_dumps (Some 2)
                 (if success
                  then JObj [(''success'', JBool True),
                             (''message_id'', JStr message_id),
                             (''message'', JStr ''Email deleted successfully'')]
                  else JObj [(''success'', JBool False),
                             (''message_id'', JStr message_id),
                             (''message'', JStr ''Failed to delete email'')])))
         (except_envelope ''delete_email''))"

definition gmail_add_label ::
  "env \<Rightarrow> mcp_context option \<Rightarrow> string \<Rightarrow> string \<Rightarrow> world \<Rightarrow> outcome \<times> world" where
  "gmail_add_label E ctx message_id label_ids =
     with_service E ctx (\<lambda>gmail_service.
       try_except
         (let label_ids_list = parse_comma_separated_list (Some label_ids)
          in construct (ModifyLabelsRequest E)
               \<lparr>ml_add_label_ids = label_ids_list, ml_remove_label_ids = None\<rparr>
               (\<lambda>request.
                  await (Modify_message_labels message_id request)
                    (modify_message_labels gmail_service message_id request)
                    (\<lambda>updated_message.
                       return_dumps (Some 2)
                         (JObj [(''success'', JBool True),
                                (''message_id'', JStr message_id),
                                (''added_labels'', json_opt_list label_ids_list),
                                (''current_labels'',
                                   JArr (map JStr (m_label_ids updated_message))),
                                (''message'', JStr (''Labels ''
                                   @ joined_or label_ids_list ''none''
                                   @ '' added successfully''))]))))
         (except_envelope ''add_label''))"

definition gmail_remove_label ::
  "env \<Rightarrow> mcp_context option \<Rightarrow> string \<Rightarrow> string \<Rightarrow> world \<Rightarrow> outcome \<times> world" where
  "gmail_remove_label E ctx message_id label_ids =
     with_service E ctx (\<lambda>gmail_service.
       try_except
         (let label_ids_list = parse_comma_separated_list (Some label_ids)
          in construct (ModifyLabelsRequest E)
               \<lparr>ml_add_label_ids = None, ml_remove_label_ids = label_ids_list\<rparr>
               (\<lambda>request.
                  await (Modify_message_labels message_id request)
                    (modify_message_labels gmail_service message_id request)
                    (\<lambda>updated_message.
                       return_dumps (Some 2)
                         (JObj [(''success'', JBool True),
                                (''message_id'', JStr message_id),
                                (''removed_labels'', json_opt_list label_ids_list),
                                (''current_labels'',
                                   JArr (map JStr (m_label_ids updated_message))),
                                (''message'', JStr (''Labels ''
                                   @ joined_or label_ids_list ''none''
                                   @ '' removed successfully''))]))))
         (except_envelope ''remove_label''))"

definition gmail_create_label ::
  "env \<Rightarrow> mcp_context option \<Rightarrow> string \<Rightarrow> string \<Rightarrow> string \<Rightarrow> world \<Rightarrow> outcome \<times> world" where
  "gmail_create_label E ctx name message_list_visibility label_list_visibility =
     with_service E ctx (\<lambda>gmail_service.
       try_except
         (construct (CreateLabelRequest E)
            \<lparr>cl_name = name, cl_message_list_visibility = message_list_visibility,
             cl_label_list_visibility = label_list_visibility\<rparr>
            (\<lambda>request.
               await (Create_label request) (create_label gmail_service request)
                 (\<lambda>label.
                    return_dumps (Some 2)
                      (JObj [(''success'', JBool True),
                             (''label'', model_dump label),
                             (''message'', JStr (''Label '' @ [CHR 0x27] @ name @ [CHR 0x27]
                                @ '' created successfully''))]))))
         (except_envelope ''create_label''))"

section \<open>tools/advanced.py\<close>

definition gmail_forward_email ::
  "env \<Rightarrow> mcp_context option \<Rightarrow> string \<Rightarrow> string \<Rightarrow> string option \<Rightarrow> string option
     \<Rightarrow> string option \<Rightarrow> world \<Rightarrow> outcome \<times> world" where
  "gmail_forward_email E ctx message_id to cc bcc additional_message =
     with_service E ctx (\<lambda>gmail_service.
       try_except
         (let to_list = parse_comma_separated_list (Some to);
              cc_list = parse_comma_separated_list cc;
              bcc_list = parse_comma_separated_list bcc
          in construct (ForwardEmailRequest E)
               \<lparr>fw_to = to_list, fw_cc = cc_list, fw_bcc = bcc_list,
                fw_additional_message = additional_message\<rparr>
               (\<lambda>request.
                  await (Forward_message message_id request)
                    (forward_message gmail_service message_id request)
                    (\<lambda>forwarded_message_id.
                       return_dumps (Some 2)
                         (JObj [(''success'', JBool True),
                                (''forwarded_message_id'', JStr forwarded_message_id),
                                (''original_message_id'', JStr message_id),
                                (''message'', JStr (''Email forwarded successfully to ''
                                   @ joined_or to_list ''recipients''))]))))
         (except_envelope ''forward_email''))"


text \<open>
  The except branch of the two listing tools: the line is logged and
  \<open>{"error": str(e)}\<close> is returned.
\<close>

definition except_error_only :: "string \<Rightarrow> exception \<Rightarrow> world \<Rightarrow> outcome \<times> world" where
  "except_error_only tool e w =
     (Return (JsonText (Some 2) (JObj [(''error'', JStr (exc_str e))])),
      logger_error (''Error in '' @ tool @ '': '' @ exc_str e) w)"

definition gmail_get_threads ::
  "env \<Rightarrow> mcp_context option \<Rightarrow> int \<Rightarrow> string option \<Rightarrow> string option \<Rightarrow> bool
     \<Rightarrow> string option \<Rightarrow> string option \<Rightarrow> string option \<Rightarrow> world \<Rightarrow> outcome \<times> world" where
  "gmail_get_threads E ctx max_results label_ids query include_spam_trash page_token
       after before =
     with_service E ctx (\<lambda>gmail_service.
       try_except
         (let label_ids_list = parse_comma_separated_list label_ids
          in construct (ThreadListRequest E)
               \<lparr>tl_max_results = max_results, tl_label_ids = label_ids_list,
                tl_q = query, tl_include_spam_trash = include_spam_trash,
                tl_page_token = page_token, tl_after = after, tl_before = before\<rparr>
               (\<lambda>request.
                  await (List_threads request) (list_threads gmail_service request)
                    (\<lambda>response.
                       return_dumps (Some 2)
                         (JObj [(''threads'',
                                   JArr (map thread_model_dump (threads response))),
                                (''next_page_token'',
                                   json_opt_str (tl_next_page_token response)),
                                (''result_size_estimate'',
                                   JInt (tl_result_size_estimate response)),
                                (''count'', JInt (int (length (threads response))))]))))
         (except_error_only ''get_threads''))"

definition gmail_get_thread_by_id ::
  "env \<Rightarrow> mcp_context option \<Rightarrow> string \<Rightarrow> message_format \<Rightarrow> world \<Rightarrow> outcome \<times> world" where
  "gmail_get_thread_by_id E ctx thread_id format =
     with_service E ctx (\<lambda>gmail_service.
       try_except
         (await (Get_thread thread_id format) (get_thread gmail_service thread_id format)
            (\<lambda>thread.
               return_dumps (Some 2)
                 (JObj [(''success'', JBool True),
                        (''thread'', thread_model_dump thread),
                        (''message_count'', JInt (int (length (messages thread))))])))
         (except_envelope ''get_thread_by_id''))"

definition gmail_create_draft ::
  "env \<Rightarrow> mcp_context option \<Rightarrow> string \<Rightarrow> string \<Rightarrow> string option \<Rightarrow> string option
     \<Rightarrow> string option \<Rightarrow> string option \<Rightarrow> string option \<Rightarrow> string option
     \<Rightarrow> world \<Rightarrow> outcome \<times> world" where
  "gmail_create_draft E ctx to subject body_text body_html cc bcc thread_id in_reply_to =
     with_service E ctx (\<lambda>gmail_service.
       try_except
         (if \<not> truthy body_text \<and> \<not> truthy body_html
          then return_dumps None no_body_error
          else
            let to_list = parse_comma_separated_list (Some to);
                cc_list = parse_comma_separated_list cc;
                bcc_list = parse_comma_separated_list bcc
            in construct (CreateDraftRequest E)
                 \<lparr>cd_to = to_list, cd_subject = subject, cd_body_text = body_text,
                  cd_body_html = body_html, cd_cc = cc_list, cd_bcc = bcc_list,
                  cd_thread_id = thread_id, cd_in_reply_to = in_reply_to\<rparr>
                 (\<lambda>request.
                    await (Create_draft request) (create_draft gmail_service request)
                      (\<lambda>draft_id.
                         return_dumps (Some 2)
                           (JObj [(''success'', JBool True),
                                  (''draft_id'', JStr draft_id),
                                  (''message'', JStr (''Draft created successfully for ''
                                     @ joined_or to_list ''recipients''))]))))
         (except_envelope ''create_draft''))"

definition gmail_get_drafts ::
  "env \<Rightarrow> mcp_context option \<Rightarrow> int \<Rightarrow> string option \<Rightarrow> message_format \<Rightarrow> string option
     \<Rightarrow> string option \<Rightarrow> string option \<Rightarrow> world \<Rightarrow> outcome \<times> world" where
  "gmail_get_drafts E ctx max_results page_token format query after before =
     with_service E ctx (\<lambda>gmail_service.
       try_except
         (construct (DraftListRequest E)
            \<lparr>dl_max_results = max_results, dl_page_token = page_token,
             dl_message_format = format, dl_q = query, dl_after = after,
             dl_before = before\<rparr>
            (\<lambda>request.
               await (List_drafts request) (list_drafts gmail_service request)
                 (\<lambda>response.
                    return_dumps (Some 2)
                      (JObj [(''drafts'', JArr (map model_dump (drafts response))),
                             (''next_page_token'',
                                json_opt_str (dl_next_page_token response)),
                             (''result_size_estimate'',
                                JInt (dl_result_size_estimate response)),
                             (''count'', JInt (int (length (drafts response))))]))))
         (except_error_only ''get_drafts''))"

definition gmail_get_draft_by_id ::
  "env \<Rightarrow> mcp_context option \<Rightarrow> string \<Rightarrow> message_format \<Rightarrow> world \<Rightarrow> outcome \<times> world" where
  "gmail_get_draft_by_id E ctx draft_id format =
     with_service E ctx (\<lambda>gmail_service.
       try_except
         (await (Get_draft draft_id format) (get_draft gmail_service draft_id format)
            (\<lambda>draft.
               return_dumps (Some 2)
                 (JObj [(''success'', JBool True),
                        (''draft'', model_dump draft),
                        (''message'', JStr (''Draft '' @ draft_id
                           @ '' retrieved successfully''))])))
         (except_envelope ''get_draft_by_id''))"

definition gmail_send_draft ::
  "env \<Rightarrow> mcp_context option \<Rightarrow> string \<Rightarrow> world \<Rightarrow> outcome \<times> world" where
  "gmail_send_draft E ctx draft_id =
     with_service E ctx (\<lambda>gmail_service.
       try_except
         (await (Send_draft draft_id) (send_draft gmail_service draft_id)
            (\<lambda>message_id.
               return_dumps (Some 2)
                 (JObj [(''success'', JBool True),
                        (''message_id'', JStr message_id),
                        (''draft_id'', JStr draft_id),
                        (''message'', JStr ''Draft sent successfully'')])))
         (except_envelope ''send_draft''))"


section \<open>Reading the traces, and sample collaborators\<close>

definition world0 :: world where
  "world0 = \<lparr>calls = [], logged = []\<rparr>"

text \<open>The text a tool call returned, if it returned.\<close>

fun returned :: "outcome \<Rightarrow> json_text option" where
  "returned (Return t) = Some t"
| "returned (Raise h) = None"

text \<open>A request context whose only header is the given Authorization header.\<close>

definition authorization :: "string \<Rightarrow> mcp_context option" where
  "authorization h =
     Some \<lparr>request_context = Some \<lparr>request = \<lparr>headers = [''Authorization'' \<mapsto> h]\<rparr>\<rparr>\<rparr>"

text \<open>A request context without an Authorization header.\<close>

definition anonymous :: "mcp_context option" where
  "anonymous = Some \<lparr>request_context = Some \<lparr>request = \<lparr>headers = Map.empty\<rparr>\<rparr>\<rparr>"

text \<open>A service client of which every method raises the same exception.\<close>

definition raising_service :: "string \<Rightarrow> gmail_service" where
  "raising_service msg =
     \<lparr>send_message = (\<lambda>r. Inl (Exception msg)),
      get_message = (\<lambda>i. Inl (Exception msg)),
      modify_message_labels = (\<lambda>i r. Inl (Exception msg)),
      delete_message = (\<lambda>i. Inl (Exception msg)),
      create_label = (\<lambda>r. Inl (Exception msg)),
      forward_message = (\<lambda>i r. Inl (Exception msg)),
      list_threads = (\<lambda>r. Inl (Exception msg)),
      get_thread = (\<lambda>i f. Inl (Exception msg)),
      create_draft = (\<lambda>r. Inl (Exception msg)),
      list_drafts = (\<lambda>r. Inl (Exception msg)),
      get_draft = (\<lambda>i f. Inl (Exception msg)),
      send_draft = (\<lambda>i. Inl (Exception msg)),
      get_attachment = (\<lambda>i a. Inl (Exception msg))\<rparr>"

text \<open>
  A mailbox holding one message: every method returns, \<open>get_message\<close> and
  \<open>modify_message_labels\<close> the message, \<open>delete_message\<close> False, and
  \<open>get_attachment\<close> the first attachment of the message.
\<close>

definition mailbox_service :: "email_message \<Rightarrow> gmail_service" where
  "mailbox_service m =
     \<lparr>send_message = (\<lambda>r. Inr ''sent-1''),
      get_message = (\<lambda>i. Inr m),
      modify_message_labels = (\<lambda>i r. Inr m),
      delete_message = (\<lambda>i. Inr False),
      create_label = (\<lambda>r. Inr (Model (JObj [(''name'', JStr (cl_name r))]))),
      forward_message = (\<lambda>i r. Inr ''sent-2''),
      list_threads = (\<lambda>r. Inr \<lparr>threads = [], tl_next_page_token = None,
                                  tl_result_size_estimate = 0\<rparr>),
      get_thread = (\<lambda>i f. Inr (Thread (JObj [(''id'', JStr i)]) [m])),
      create_draft = (\<lambda>r. Inr ''draft-1''),
      list_drafts = (\<lambda>r. Inr \<lparr>drafts = [], dl_next_page_token = None,
                                 dl_result_size_estimate = 0\<rparr>),
      get_draft = (\<lambda>i f. Inr (Model (JObj [(''id'', JStr i)]))),
      send_draft = (\<lambda>i. Inr ''sent-3''),
      get_attachment = (\<lambda>i a. Inr (Model (JObj [(''attachment_id'', JStr a)])))\<rparr>"

text \<open>An environment with one service client, whose request classes accept every value.\<close>

definition accepting_env :: "gmail_service \<Rightarrow> env" where
  "accepting_env svc =
     \<lparr>GmailService = (\<lambda>t. svc),
      SendEmailRequest = (\<lambda>r. None),
      ModifyLabelsRequest = (\<lambda>r. None),
      CreateLabelRequest = (\<lambda>r. None),
      ForwardEmailRequest = (\<lambda>r. None),
      CreateDraftRequest = (\<lambda>r. None),
      ThreadListRequest = (\<lambda>r. None),
      DraftListRequest = (\<lambda>r. None)\<rparr>"

definition sample_message :: "string option \<Rightarrow> string option \<Rightarrow> email_message" where
  "sample_message from subj =
     \<lparr>m_sender = from, m_recipient = Some ''me@x.com'', m_subject = subj,
      m_thread_id = Some ''t1'', m_label_ids = [''INBOX''],
      m_attachments = [Model (JObj [(''filename'', JStr ''a.txt'')]),
                       Model (JObj [(''filename'', JStr ''b.txt'')])]\<rparr>"

text \<open>The value under a key of the JSON object a tool call returned.\<close>

fun response_field :: "string \<Rightarrow> outcome \<Rightarrow> json option" where
  "response_field k (Return t) = field k (document t)"
| "response_field k (Raise h) = None"

text \<open>The send requests among the calls of a trace, in order.\<close>

fun sent :: "service_call list \<Rightarrow> send_email_request list" where
  "sent [] = []"
| "sent (Send_message r # cs) = r # sent cs"
| "sent (c # cs) = sent cs"

section \<open>Properties of the string operations\<close>

lemma str_split_not_Nil: "str_split sep s \<noteq> []"
  by (induction s) auto

lemma str_split_free: "sep \<notin> set x \<Longrightarrow> str_split sep x = [x]"
  by (induction x) auto

lemma str_split_append:
  "sep \<notin> set x \<Longrightarrow> str_split sep (x @ sep # rest) = x # str_split sep rest"
  by (induction x) auto

text \<open>Splitting undoes joining, when no segment holds the separator.\<close>

lemma str_split_join:
  "segs \<noteq> [] \<Longrightarrow> \<forall>x\<in>set segs. sep \<notin> set x
     \<Longrightarrow> str_split sep (str_join [sep] segs) = segs"
proof (induction "[sep]" segs rule: str_join.induct)
  case 1
  then show ?case by simp
next
  case (2 x)
  then show ?case by (simp add: str_split_free)
next
  case (3 x y ys)
  then show ?case by (simp add: str_split_append)
qed

text \<open>Joining undoes splitting, and no segment of a split holds the separator.\<close>

lemma str_join_split: "str_join [sep] (str_split sep s) = s"
proof (induction s)
  case Nil
  then show ?case by simp
next
  case (Cons c cs)
  obtain x xs where sp: "str_split sep cs = x # xs"
    using str_split_not_Nil [of sep cs] by (cases "str_split sep cs") auto
  show ?case
  proof (cases "c = sep")
    case True
    with Cons sp show ?thesis by simp
  next
    case False
    with Cons sp show ?thesis by (cases xs) auto
  qed
qed

lemma str_split_sep_free: "x \<in> set (str_split sep s) \<Longrightarrow> sep \<notin> set x"
proof (induction s arbitrary: x)
  case Nil
  then show ?case by simp
next
  case (Cons c cs)
  obtain y ys where sp: "str_split sep cs = y # ys"
    using str_split_not_Nil [of sep cs] by (cases "str_split sep cs") auto
  from Cons sp show ?case by (auto split: if_splits)
qed

lemma dropWhile_all: "(\<forall>x\<in>set (dropWhile P s). P x) = (dropWhile P s = [])"
  using hd_dropWhile [of P s] by (cases "dropWhile P s") (auto dest: set_dropWhileD)

text \<open>A string strips to nothing exactly when it is blank.\<close>

lemma str_strip_blank: "(str_strip s = []) = (\<forall>c\<in>set s. isspace c)"
proof -
  have "(str_strip s = []) = (dropWhile isspace s = [])"
    by (simp add: str_strip_def dropWhile_all)
  then show ?thesis by simp
qed

text \<open>Stripping removes a blank prefix and a blank suffix, and nothing else.\<close>

lemma str_strip_decompose:
  "s = takeWhile isspace s @ str_strip s
         @ rev (takeWhile isspace (rev (dropWhile isspace s)))"
proof -
  let ?d = "dropWhile isspace s"
  have "rev ?d = takeWhile isspace (rev ?d) @ dropWhile isspace (rev ?d)"
    by simp
  then have "?d = rev (dropWhile isspace (rev ?d)) @ rev (takeWhile isspace (rev ?d))"
    by (metis rev_append rev_rev_ident)
  then show ?thesis
    unfolding str_strip_def by (metis takeWhile_dropWhile_id)
qed

lemma str_strip_surrounding:
  "\<exists>a b. s = a @ str_strip s @ b \<and> (\<forall>c\<in>set (a @ b). isspace c)"
proof -
  let ?a = "takeWhile isspace s"
  let ?b = "rev (takeWhile isspace (rev (dropWhile isspace s)))"
  have "\<forall>c\<in>set (?a @ ?b). isspace c"
    by (auto dest: set_takeWhileD)
  with str_strip_decompose [of s] show ?thesis by blast
qed

lemma str_strip_ends:
  assumes "str_strip s \<noteq> []"
  shows "\<not> isspace (hd (str_strip s))" and "\<not> isspace (last (str_strip s))"
proof -
  let ?d = "dropWhile isspace s"
  let ?e = "dropWhile isspace (rev ?d)"
  from assms have e: "?e \<noteq> []" by (simp add: str_strip_def)
  then have "\<not> isspace (hd ?e)" by (rule hd_dropWhile)
  then show "\<not> isspace (last (str_strip s))"
    using e by (simp add: str_strip_def last_rev)
  have d: "?d \<noteq> []"
  proof
    assume "?d = []"
    then have "?e = []" by (simp only: rev.simps dropWhile.simps)
    with e show False by simp
  qed
  then have hd: "\<not> isspace (hd ?d)" by (rule hd_dropWhile)
  have "rev ?d = takeWhile isspace (rev ?d) @ ?e" by simp
  then have "?d = rev ?e @ rev (takeWhile isspace (rev ?d))"
    by (metis rev_append rev_rev_ident)
  then have "hd ?d = hd (rev ?e)" using e by (metis hd_append2 rev_is_Nil_conv)
  with hd show "\<not> isspace (hd (str_strip s))" by (simp add: str_strip_def)
qed

lemma strip_then_filter:
  "map str_strip (filter (\<lambda>item. str_strip item \<noteq> []) xs)
     = filter (\<lambda>x. x \<noteq> []) (map str_strip xs)"
  by (induction xs) auto

text \<open>Replacing leaves a string without an occurrence of \<open>old\<close> as it is.\<close>

lemma str_replace_absent:
  "old \<noteq> [] \<Longrightarrow> \<forall>a b. s \<noteq> a @ old @ b \<Longrightarrow> str_replace old new s = s"
proof (induction s)
  case Nil
  then show ?case by simp
next
  case (Cons c cs)
  have np: "\<not> prefix old (c # cs)"
  proof
    assume "prefix old (c # cs)"
    then obtain b where "c # cs = old @ b" by (auto simp: prefix_def)
    then have "c # cs = [] @ old @ b" by simp
    with Cons.prems(2) show False by blast
  qed
  have "\<forall>a b. cs \<noteq> a @ old @ b"
  proof (intro allI notI)
    fix a b
    assume "cs = a @ old @ b"
    then have "c # cs = (c # a) @ old @ b" by simp
    with Cons.prems(2) show False by blast
  qed
  with Cons.IH Cons.prems(1) have "str_replace old new cs = cs" by simp
  with np Cons.prems(1) show ?case by simp
qed

section \<open>Token extraction and list normalisation\<close>

text \<open>
  Claim C3. \<open>parse_comma_separated_list\<close> returns \<open>None\<close> for an absent and for a
  blank input. For any other input, written as its segments joined by commas, it
  returns the stripped segments without those that strip to the empty string, in
  their order and with repetitions kept (a filter of a map); every input can be
  written so. Stripping removes a blank prefix and a blank suffix, and what is left
  neither starts nor ends with whitespace.
\<close>

theorem parse_comma_separated_list_normalizes:
  "parse_comma_separated_list None = None
   \<and> ((\<forall>c\<in>set v. isspace c) \<longrightarrow> parse_comma_separated_list (Some v) = None)
   \<and> (\<not> (\<forall>c\<in>set v. isspace c) \<and> segs \<noteq> [] \<and> (\<forall>x\<in>set segs. CHR '','' \<notin> set x)
        \<and> v = str_join '','' segs
      \<longrightarrow> parse_comma_separated_list (Some v)
            = Some (filter (\<lambda>x. x \<noteq> []) (map str_strip segs)))
   \<and> (\<exists>segs. segs \<noteq> [] \<and> (\<forall>x\<in>set segs. CHR '','' \<notin> set x)
        \<and> v = str_join '','' segs)
   \<and> (\<exists>a b. s = a @ str_strip s @ b \<and> (\<forall>c\<in>set (a @ b). isspace c))
   \<and> (str_strip s \<noteq> []
      \<longrightarrow> \<not> isspace (hd (str_strip s)) \<and> \<not> isspace (last (str_strip s)))"
proof (intro conjI impI)
  show "\<exists>segs. segs \<noteq> [] \<and> (\<forall>x\<in>set segs. CHR '','' \<notin> set x)
        \<and> v = str_join '','' segs"
    using str_split_not_Nil [of "CHR '',''" v] str_join_split [of "CHR '',''" v]
      str_split_sep_free [of _ "CHR '',''" v]
    by (intro exI [of _ "str_split CHR '','' v"]) auto
  show "parse_comma_separated_list None = None"
    by (simp add: parse_comma_separated_list_def)
  show "parse_comma_separated_list (Some v) = None" if "\<forall>c\<in>set v. isspace c"
    using that by (simp add: parse_comma_separated_list_def str_strip_blank)
  show "parse_comma_separated_list (Some v)
          = Some (filter (\<lambda>x. x \<noteq> []) (map str_strip segs))"
    if h: "\<not> (\<forall>c\<in>set v. isspace c) \<and> segs \<noteq> [] \<and> (\<forall>x\<in>set segs. CHR '','' \<notin> set x)
        \<and> v = str_join '','' segs"
  proof -
    from h have "str_split CHR '','' v = segs"
      using str_split_join [of segs "CHR '',''"] by simp
    moreover from h have "str_strip v \<noteq> []" unfolding str_strip_blank by blast
    ultimately show ?thesis
      by (simp add: parse_comma_separated_list_def strip_then_filter)
  qed
  show "\<exists>a b. s = a @ str_strip s @ b \<and> (\<forall>c\<in>set (a @ b). isspace c)"
    by (rule str_strip_surrounding)
  show "\<not> isspace (hd (str_strip s))" if "str_strip s \<noteq> []"
    using that by (rule str_strip_ends)
  show "\<not> isspace (last (str_strip s))" if "str_strip s \<noteq> []"
    using that by (rule str_strip_ends)
qed

theorem parse_comma_separated_list_normalizes_witness:
  "list_all isspace ''  ''
   \<and> parse_comma_separated_list (Some ''  '') = None
   \<and> \<not> (\<forall>c\<in>set ''a@x.com, ,b@x.com''. isspace c)
   \<and> ''a@x.com, ,b@x.com'' = str_join '','' [''a@x.com'', '' '', ''b@x.com'']
   \<and> parse_comma_separated_list (Some ''a@x.com, ,b@x.com'')
       = Some [''a@x.com'', ''b@x.com'']
   \<and> parse_comma_separated_list (Some ''a,b ,a'') = Some [''a'', ''b'', ''a'']
   \<and> str_strip '' b@x.com '' = ''b@x.com''"
  using parse_comma_separated_list_normalizes
          [of "''  ''" "[''  '']" "'' b@x.com ''"]
        parse_comma_separated_list_normalizes
          [of "''a@x.com, ,b@x.com''" "[''a@x.com'', '' '', ''b@x.com'']" "'' b@x.com ''"]
        parse_comma_separated_list_normalizes
          [of "''a,b ,a''" "[''a'', ''b '', ''a'']" "'' b@x.com ''"]
  by (simp add: isspace_def str_strip_def list_all_iff)

text \<open>
  Token extraction rejects a request without an Authorization header, and one whose
  header does not start with \<open>Bearer \<close>, with the same 401; a header whose remainder
  holds no further \<open>Bearer \<close> yields that remainder.
\<close>

lemma get_access_token_rejects:
  "headers (request rc) ''Authorization'' = None
     \<or> (\<exists>h. headers (request rc) ''Authorization'' = Some h \<and> \<not> prefix ''Bearer '' h)
   \<Longrightarrow> get_access_token (Some \<lparr>request_context = Some rc\<rparr>)
         = Inl (HTTPException 401 ''No valid access token provided'')"
  by (auto simp: get_access_token_def startswith_def)

lemma get_access_token_plain:
  assumes "headers (request rc) ''Authorization'' = Some (''Bearer '' @ t)"
    and "\<forall>a b. t \<noteq> a @ ''Bearer '' @ b"
  shows "get_access_token (Some \<lparr>request_context = Some rc\<rparr>) = Inr t"
proof -
  have "str_replace ''Bearer '' '''' t = t"
    using assms(2) by (intro str_replace_absent) simp_all
  with assms(1) show ?thesis
    by (simp add: get_access_token_def startswith_def)
qed

lemma authorization_token:
  "get_access_token (authorization ''Bearer t0'') = Inr ''t0''"
  by (simp add: get_access_token_def authorization_def startswith_def)

lemma anonymous_rejected:
  "get_access_token anonymous = Inl (HTTPException 401 ''No valid access token provided'')"
  by (simp add: get_access_token_def anonymous_def)

text \<open>
  Claim C4. The header \<open>Bearer abcBearer def\<close> starts with the scheme prefix, and
  its remainder is \<open>abcBearer def\<close>; \<open>get_access_token\<close> returns \<open>abcdef\<close>: the
  replacement removes the second \<open>Bearer \<close> as well.
\<close>

theorem get_access_token_inner_prefix:
  "prefix ''Bearer '' ''Bearer abcBearer def''
   \<and> drop (length ''Bearer '') ''Bearer abcBearer def'' = ''abcBearer def''
   \<and> get_access_token (authorization ''Bearer abcBearer def'') = Inr ''abcdef''"
  by (simp add: get_access_token_def authorization_def startswith_def)

theorem get_access_token_inner_prefix_witness:
  "get_access_token (authorization ''Bearer abcBearer def'') \<noteq> Inr ''abcBearer def''"
  using get_access_token_inner_prefix by simp

section \<open>Properties of the tools\<close>

lemmas tool_defs =
  with_service_def try_except_def await_def construct_def return_dumps_def
  except_envelope_def except_error_only_def logger_error_def error_envelope_def
  no_body_error_def Let_def

lemmas sample_defs =
  authorization_def anonymous_def raising_service_def mailbox_service_def
  accepting_env_def sample_message_def world0_def get_gmail_service_def
  get_access_token_def startswith_def

text \<open>
  What the except branches do with an exception raised in the try block, whatever
  raised it.
\<close>

lemma caught_exception_envelope:
  "body w = (Inl e, w')
   \<Longrightarrow> try_except body (except_envelope tool) w
        = (Return (JsonText (Some 2)
             (JObj [(''error'', JStr (exc_str e)), (''success'', JBool False)])),
           w'\<lparr>logged := logged w' @ [''Error in '' @ tool @ '': '' @ exc_str e]\<rparr>)"
  by (simp add: tool_defs)

lemma caught_exception_error_only:
  "body w = (Inl e, w')
   \<Longrightarrow> try_except body (except_error_only tool) w
        = (Return (JsonText (Some 2) (JObj [(''error'', JStr (exc_str e))])),
           w'\<lparr>logged := logged w' @ [''Error in '' @ tool @ '': '' @ exc_str e]\<rparr>)"
  by (simp add: tool_defs)

text \<open>The forward tool turns an exception of the service client into the envelope.\<close>

lemma forward_service_exception:
  assumes "get_access_token ctx = Inr tok"
    and "req = \<lparr>fw_to = parse_comma_separated_list (Some to),
                 fw_cc = parse_comma_separated_list cc,
                 fw_bcc = parse_comma_separated_list bcc,
                 fw_additional_message = additional_message\<rparr>"
    and "ForwardEmailRequest E req = None"
    and "forward_message (get_gmail_service E tok) message_id req = Inl e"
  shows "gmail_forward_email E ctx message_id to cc bcc additional_message w =
           (Return (JsonText (Some 2)
              (JObj [(''error'', JStr (exc_str e)), (''success'', JBool False)])),
            \<lparr>calls = calls w @ [Forward_message message_id req],
             logged = logged w @ [''Error in forward_email: '' @ exc_str e]\<rparr>)"
  using assms by (simp add: gmail_forward_email_def tool_defs)

text \<open>The send tool raises a 500 instead.\<close>

lemma send_service_exception:
  assumes "get_access_token ctx = Inr tok"
    and "truthy body_text \<or> truthy body_html"
    and "req = \<lparr>se_to = parse_comma_separated_list (Some to), se_subject = subject,
                 se_body_text = body_text, se_body_html = body_html,
                 se_cc = parse_comma_separated_list cc,
                 se_bcc = parse_comma_separated_list bcc,
                 se_attachments = parse_comma_separated_list attachments,
                 se_thread_id = None, se_in_reply_to = None\<rparr>"
    and "SendEmailRequest E req = None"
    and "send_message (get_gmail_service E tok) req = Inl e"
  shows "gmail_send_email E ctx to subject body_text body_html cc bcc attachments w =
           (Raise (HTTPException 500 (''Failed to send email: '' @ exc_str e)),
            \<lparr>calls = calls w @ [Send_message req],
             logged = logged w @ [''Error sending email: '' @ exc_str e]\<rparr>)"
  using assms by (auto simp: gmail_send_email_def tool_defs)

text \<open>
  Claim C1. With a well-formed token and a service client that raises, the thread
  listing returns an object with an \<open>error\<close> field and no \<open>success\<close> field; so do the
  reply and the draft creation when both bodies are absent.
\<close>

theorem error_responses_without_success:
  "response_field ''error''
      (fst (gmail_get_threads (accepting_env (raising_service ''boom''))
              (authorization ''Bearer t0'') 10 None None False None None None world0))
     = Some (JStr ''boom'')
   \<and> response_field ''success''
      (fst (gmail_get_threads (accepting_env (raising_service ''boom''))
              (authorization ''Bearer t0'') 10 None None False None None None world0))
     = None
   \<and> response_field ''error''
      (fst (gmail_reply_to_email (accepting_env (raising_service ''boom''))
              (authorization ''Bearer t0'') ''m1'' None None False world0))
     = Some (JStr ''Either body_text or body_html must be provided'')
   \<and> response_field ''success''
      (fst (gmail_reply_to_email (accepting_env (raising_service ''boom''))
              (authorization ''Bearer t0'') ''m1'' None None False world0))
     = None
   \<and> response_field ''error''
      (fst (gmail_create_draft (accepting_env (raising_service ''boom''))
              (authorization ''Bearer t0'') ''a@x.com'' ''Hi'' None None None None None None
              world0))
     = Some (JStr ''Either body_text or body_html must be provided'')
   \<and> response_field ''success''
      (fst (gmail_create_draft (accepting_env (raising_service ''boom''))
              (authorization ''Bearer t0'') ''a@x.com'' ''Hi'' None None None None None None
              world0))
     = None"
  by (simp add: gmail_get_threads_def gmail_reply_to_email_def gmail_create_draft_def
        tool_defs sample_defs parse_comma_separated_list_def)

text \<open>
  Claim C5. With a well-formed token and a service client that raises, the draft
  listing and the thread listing log the exception and return \<open>{"error": ...}\<close>
  alone, without \<open>success\<close>; the forward tool returns the envelope with
  \<open>success\<close> false, and the send tool raises a 500.
\<close>

theorem listing_exception_without_success:
  "gmail_get_drafts (accepting_env (raising_service ''boom''))
      (authorization ''Bearer t0'') 10 None COMPACT None None None world0
     = (Return (JsonText (Some 2) (JObj [(''error'', JStr ''boom'')])),
        \<lparr>calls = [List_drafts \<lparr>dl_max_results = 10, dl_page_token = None,
                     dl_message_format = COMPACT, dl_q = None, dl_after = None,
                     dl_before = None\<rparr>],
         logged = [''Error in get_drafts: boom'']\<rparr>)
   \<and> field ''success'' (JObj [(''error'', JStr ''boom'')]) = None
   \<and> fst (gmail_get_threads (accepting_env (raising_service ''boom''))
              (authorization ''Bearer t0'') 10 None None False None None None world0)
     = Return (JsonText (Some 2) (JObj [(''error'', JStr ''boom'')]))
   \<and> fst (gmail_forward_email (accepting_env (raising_service ''boom''))
              (authorization ''Bearer t0'') ''m1'' ''a@x.com'' None None None world0)
     = Return (JsonText (Some 2)
         (JObj [(''error'', JStr ''boom''), (''success'', JBool False)]))
   \<and> fst (gmail_send_email (accepting_env (raising_service ''boom''))
              (authorization ''Bearer t0'') ''a@x.com'' ''Hi'' (Some ''hello'') None None None
              None world0)
     = Raise (HTTPException 500 ''Failed to send email: boom'')"
  by (simp add: gmail_get_drafts_def gmail_get_threads_def gmail_forward_email_def
        gmail_send_email_def tool_defs sample_defs parse_comma_separated_list_def
        str_strip_def isspace_def)

text \<open>
  Claim C9. When the token is extracted and \<open>delete_message\<close> returns False, the
  delete tool makes that one call, logs nothing, and returns the object with
  \<open>success\<close> false, the message id and the line \<open>Failed to delete email\<close>.
\<close>

theorem delete_failure_payload:
  assumes "get_access_token ctx = Inr tok"
    and "delete_message (get_gmail_service E tok) message_id = Inr False"
  shows "gmail_delete_email E ctx message_id w =
           (Return (JsonText (Some 2)
              (JObj [(''success'', JBool False),
                     (''message_id'', JStr message_id),
                     (''message'', JStr ''Failed to delete email'')])),
            w\<lparr>calls := calls w @ [Delete_message message_id]\<rparr>)"
  using assms by (simp add: gmail_delete_email_def tool_defs)

theorem delete_failure_payload_witness:
  "get_access_token (authorization ''Bearer t0'') = Inr ''t0''
   \<and> delete_message
        (get_gmail_service (accepting_env (mailbox_service (sample_message None None))) ''t0'')
        ''m1'' = Inr False
   \<and> gmail_delete_email (accepting_env (mailbox_service (sample_message None None)))
        (authorization ''Bearer t0'') ''m1'' world0
      = (Return (JsonText (Some 2)
              (JObj [(''success'', JBool False),
                     (''message_id'', JStr ''m1''),
                     (''message'', JStr ''Failed to delete email'')])),
         \<lparr>calls = [Delete_message ''m1''], logged = []\<rparr>)"
proof -
  have t: "get_access_token (authorization ''Bearer t0'') = Inr ''t0''"
    by (rule authorization_token)
  have d: "delete_message
        (get_gmail_service (accepting_env (mailbox_service (sample_message None None))) ''t0'')
        ''m1'' = Inr False"
    by (simp add: get_gmail_service_def accepting_env_def mailbox_service_def)
  show ?thesis
    using t d delete_failure_payload [OF t d, of world0] by (simp add: world0_def)
qed



text \<open>
  Claim C2, as the code has it. When both bodies are absent (\<open>None\<close> or empty),
  the send, reply and create-draft tools make no call on the service client. When the
  token has been extracted they return the validation object, whose \<open>error\<close> field
  is the fixed line, and leave the traces as they were; when token extraction raises,
  they raise its exception and return nothing.
\<close>

theorem no_body_validation_error:
  assumes "\<not> truthy body_text" and "\<not> truthy body_html"
  shows "calls (snd (gmail_send_email E ctx to subject body_text body_html cc bcc
                       attachments w)) = calls w
       \<and> calls (snd (gmail_reply_to_email E ctx message_id body_text body_html
                       reply_all w)) = calls w
       \<and> calls (snd (gmail_create_draft E ctx to subject body_text body_html cc bcc
                       thread_id in_reply_to w)) = calls w
       \<and> (get_access_token ctx = Inr tok \<longrightarrow>
            gmail_send_email E ctx to subject body_text body_html cc bcc attachments w
              = (Return (JsonText None no_body_error), w)
          \<and> gmail_reply_to_email E ctx message_id body_text body_html reply_all w
              = (Return (JsonText None no_body_error), w)
          \<and> gmail_create_draft E ctx to subject body_text body_html cc bcc thread_id
                in_reply_to w
              = (Return (JsonText None no_body_error), w))
       \<and> (get_access_token ctx = Inl h \<longrightarrow>
            gmail_send_email E ctx to subject body_text body_html cc bcc attachments w
              = (Raise h, w)
          \<and> gmail_reply_to_email E ctx message_id body_text body_html reply_all w
              = (Raise h, w)
          \<and> gmail_create_draft E ctx to subject body_text body_html cc bcc thread_id
                in_reply_to w
              = (Raise h, w))
       \<and> field ''error'' no_body_error
           = Some (JStr ''Either body_text or body_html must be provided'')"
  using assms
  by (simp add: gmail_send_email_def gmail_reply_to_email_def gmail_create_draft_def
        with_service_def try_except_def return_dumps_def no_body_error_def
        split: sum.splits)

theorem no_body_validation_error_witness:
  "\<not> truthy None \<and> \<not> truthy (Some [])
   \<and> get_access_token (authorization ''Bearer t0'') = Inr ''t0''
   \<and> gmail_send_email (accepting_env (mailbox_service (sample_message None None)))
        (authorization ''Bearer t0'') ''a@x.com'' ''Hi'' None (Some []) None None None world0
      = (Return (JsonText None no_body_error), world0)
   \<and> gmail_reply_to_email (accepting_env (mailbox_service (sample_message None None)))
        (authorization ''Bearer t0'') ''m1'' None (Some []) False world0
      = (Return (JsonText None no_body_error), world0)
   \<and> gmail_create_draft (accepting_env (mailbox_service (sample_message None None)))
        (authorization ''Bearer t0'') ''a@x.com'' ''Hi'' None (Some []) None None None None
        world0
      = (Return (JsonText None no_body_error), world0)
   \<and> get_access_token anonymous
      = Inl (HTTPException 401 ''No valid access token provided'')
   \<and> gmail_reply_to_email (accepting_env (mailbox_service (sample_message None None)))
        anonymous ''m1'' None (Some []) False world0
      = (Raise (HTTPException 401 ''No valid access token provided''), world0)"
  using no_body_validation_error
          [where body_text = None and body_html = "Some []"
             and ctx = "authorization ''Bearer t0''" and w = world0 and tok = "''t0''"
             and E = "accepting_env (mailbox_service (sample_message None None))"
             and to = "''a@x.com''" and subject = "''Hi''" and cc = None and bcc = None
             and attachments = None and message_id = "''m1''" and reply_all = False
             and thread_id = None and in_reply_to = None]
        no_body_validation_error
          [where body_text = None and body_html = "Some []"
             and ctx = anonymous and w = world0
             and h = "HTTPException 401 ''No valid access token provided''"
             and E = "accepting_env (mailbox_service (sample_message None None))"
             and to = "''a@x.com''" and subject = "''Hi''" and cc = None and bcc = None
             and attachments = None and message_id = "''m1''" and reply_all = False
             and thread_id = None and in_reply_to = None]
        authorization_token anonymous_rejected
  by simp

text \<open>
  Both bodies are absent and the request has no Authorization header: each of the
  three tools raises the 401 of the token extraction, and returns no validation
  object.
\<close>

theorem no_body_anonymous_counterexample:
  "\<not> truthy None
   \<and> fst (gmail_send_email (accepting_env (raising_service ''boom'')) anonymous
        ''a@x.com'' ''Hi'' None None None None None world0)
      = Raise (HTTPException 401 ''No valid access token provided'')
   \<and> fst (gmail_reply_to_email (accepting_env (raising_service ''boom'')) anonymous
        ''m1'' None None False world0)
      = Raise (HTTPException 401 ''No valid access token provided'')
   \<and> fst (gmail_create_draft (accepting_env (raising_service ''boom'')) anonymous
        ''a@x.com'' ''Hi'' None None None None None None world0)
      = Raise (HTTPException 401 ''No valid access token provided'')
   \<and> returned (fst (gmail_send_email (accepting_env (raising_service ''boom'')) anonymous
        ''a@x.com'' ''Hi'' None None None None None world0)) = None
   \<and> returned (fst (gmail_reply_to_email (accepting_env (raising_service ''boom''))
        anonymous ''m1'' None None False world0)) = None
   \<and> returned (fst (gmail_create_draft (accepting_env (raising_service ''boom''))
        anonymous ''a@x.com'' ''Hi'' None None None None None None world0)) = None"
  by (simp add: gmail_send_email_def gmail_reply_to_email_def gmail_create_draft_def
        with_service_def anonymous_rejected)












end
